theory Spec2Isabelle
  imports Complex_Main "HOL-Library.Sublist"
begin

section \<open>Python values and exceptions\<close>

text \<open>
  Exceptions are values. Each constructor is one Python exception class; \<open>ServiceError\<close>
  stands for whatever an external SDK (OpenAI, Pinecone, Flask's request parsing) raises.
  The payload is what \<open>str(e)\<close> is built from.
\<close>

datatype py_error =
    NameError string
  | ValueError string
  | TypeError string
  | IndexError string
  | KeyError string
  | ServiceError string

fun str_of_error :: "py_error \<Rightarrow> string" where
  "str_of_error (NameError n) = ''name '' @ [CHR 0x27] @ n @ [CHR 0x27] @ '' is not defined''"
| "str_of_error (ValueError m) = m"
| "str_of_error (TypeError m) = m"
| "str_of_error (IndexError m) = m"
| "str_of_error (KeyError k) = [CHR 0x27] @ k @ [CHR 0x27]"
| "str_of_error (ServiceError m) = m"

text \<open>
  Values decoded from a JSON request body, and the Python values the handlers pass on.
  A dict is an association list in document order; as in \<open>json.loads\<close>, the last binding
  of a repeated key is the one a lookup sees. Numbers are the integers.
\<close>

datatype json =
    JNull
  | JBool bool
  | JNum int
  | JStr string
  | JList "json list"
  | JDict "(string \<times> json) list"

text \<open>Truth value testing: \<open>not v\<close>.\<close>

fun py_not :: "json \<Rightarrow> bool" where
  "py_not JNull = True"
| "py_not (JBool b) = (\<not> b)"
| "py_not (JNum n) = (n = 0)"
| "py_not (JStr s) = (s = [])"
| "py_not (JList xs) = (xs = [])"
| "py_not (JDict kvs) = (kvs = [])"

text \<open>Substring test, \<open>sub in s\<close> on two strings.\<close>

fun str_contains :: "string \<Rightarrow> string \<Rightarrow> bool" where
  "str_contains sub [] = (sub = [])"
| "str_contains sub (c # cs) = (prefix sub (c # cs) \<or> str_contains sub cs)"

text \<open>\<open>key in v\<close> for a string key: membership in a dict's keys, in a list's elements, as a
  substring of a string; the other values are not iterable.\<close>

fun py_in :: "string \<Rightarrow> json \<Rightarrow> py_error + bool" where
  "py_in key (JDict kvs) = Inr (key \<in> set (map fst kvs))"
| "py_in key (JList xs) = Inr (JStr key \<in> set xs)"
| "py_in key (JStr s) = Inr (str_contains key s)"
| "py_in key (JNum n) = Inl (TypeError ''argument of type 'int' is not iterable'')"
| "py_in key (JBool b) = Inl (TypeError ''argument of type 'bool' is not iterable'')"
| "py_in key JNull = Inl (TypeError ''argument of type 'NoneType' is not iterable'')"

text \<open>\<open>type(v).__name__\<close>, and a natural number in decimal, for the messages below
  (the wording of CPython 3.11).\<close>

fun type_name :: "json \<Rightarrow> string" where
  "type_name JNull = ''NoneType''"
| "type_name (JBool b) = ''bool''"
| "type_name (JNum n) = ''int''"
| "type_name (JStr s) = ''str''"
| "type_name (JList xs) = ''list''"
| "type_name (JDict kvs) = ''dict''"

function str_of_nat :: "nat \<Rightarrow> string" where
  "str_of_nat n =
     (if n < 10 then [char_of (48 + n)]
      else str_of_nat (n div 10) @ [char_of (48 + n mod 10)])"
  by pat_completeness auto
termination
  by (relation "measure (\<lambda>n. n)") auto

definition not_subscriptable :: "json \<Rightarrow> py_error" where
  "not_subscriptable v =
     TypeError ([CHR 0x27] @ type_name v @ [CHR 0x27] @ '' object is not subscriptable'')"

text \<open>\<open>v[key]\<close> for a string key.\<close>

fun py_getitem :: "json \<Rightarrow> string \<Rightarrow> py_error + json" where
  "py_getitem (JDict kvs) key =
     (case map_of (rev kvs) key of None \<Rightarrow> Inl (KeyError key) | Some v \<Rightarrow> Inr v)"
| "py_getitem (JList xs) key = Inl (TypeError ''list indices must be integers or slices, not str'')"
| "py_getitem (JStr s) key =
     Inl (TypeError (''string indices must be integers, not 'str'' @ [CHR 0x27]))"
| "py_getitem (JNum n) key = Inl (not_subscriptable (JNum n))"
| "py_getitem (JBool b) key = Inl (not_subscriptable (JBool b))"
| "py_getitem JNull key = Inl (not_subscriptable JNull)"

text \<open>
  \<open>sep.join(items)\<close>: every item must be a string; the first one that is not raises
  \<open>TypeError\<close> with its index and its type.
\<close>

fun str_items :: "nat \<Rightarrow> json list \<Rightarrow> py_error + string list" where
  "str_items i [] = Inr []"
| "str_items i (JStr s # items) =
     (case str_items (Suc i) items of Inl e \<Rightarrow> Inl e | Inr ss \<Rightarrow> Inr (s # ss))"
| "str_items i (v # items) =
     Inl (TypeError (''sequence item '' @ str_of_nat i @ '': expected str instance, ''
                     @ type_name v @ '' found''))"

fun join_strings :: "string \<Rightarrow> string list \<Rightarrow> string" where
  "join_strings sep [] = []"
| "join_strings sep [s] = s"
| "join_strings sep (s # t # ss) = s @ sep @ join_strings sep (t # ss)"

definition py_join :: "string \<Rightarrow> json list \<Rightarrow> py_error + string" where
  "py_join sep items =
     (case str_items 0 items of Inl e \<Rightarrow> Inl e | Inr ss \<Rightarrow> Inr (join_strings sep ss))"

text \<open>
  Slicing \<open>xs[i:j]\<close> with integer bounds: a negative bound counts from the end, and both
  bounds are clamped to the list.
\<close>

definition py_slice :: "'a list \<Rightarrow> int \<Rightarrow> int \<Rightarrow> 'a list" where
  "py_slice xs i j =
     (let n = int (length xs);
          lo = (if i < 0 then max (n + i) 0 else min i n);
          hi = (if j < 0 then max (n + j) 0 else min j n)
      in take (nat (hi - lo)) (drop (nat lo) xs))"

text \<open>
  \<open>str.isspace\<close> on one character and \<open>str.strip()\<close>. A \<open>char\<close> is a code point below
  256; these are the whitespace code points in that range.
\<close>

definition py_isspace :: "char \<Rightarrow> bool" where
  "py_isspace c =
     ((of_char c :: nat) \<in> {9, 10, 11, 12, 13, 28, 29, 30, 31, 32, 133, 160})"

definition py_strip :: "string \<Rightarrow> string" where
  "py_strip s = rev (dropWhile py_isspace (rev (dropWhile py_isspace s)))"

text \<open>
  \<open>text.split(sep)\<close>: cut at the leftmost occurrences of a non-empty separator, left to
  right without overlap; an empty separator raises \<open>ValueError\<close>.
\<close>

function split_on :: "string \<Rightarrow> string \<Rightarrow> string \<Rightarrow> string list" where
  "split_on sep acc [] = [acc]"
| "split_on sep acc (c # cs) =
     (if sep \<noteq> [] \<and> prefix sep (c # cs)
      then acc # split_on sep [] (drop (length sep) (c # cs))
      else split_on sep (acc @ [c]) cs)"
  by pat_completeness auto
termination
  by (relation "measure (\<lambda>(sep, acc, s). length s)") auto

definition py_split :: "string \<Rightarrow> string \<Rightarrow> py_error + string list" where
  "py_split text sep =
     (if sep = [] then Inl (ValueError ''empty separator'') else Inr (split_on sep [] text))"

section \<open>src/text\_utils.py\<close>

text \<open>
  The \<open>tiktoken\<close> library is outside the repository. An encoding has \<open>encode\<close> and
  \<open>decode\<close>. On some texts \<open>encode\<close> raises instead of returning tokens (by default
  \<open>tiktoken\<close> refuses a text that contains a special token such as
  \<open><|endoftext|>\<close>): \<open>encode_raises\<close> gives the exception for such a text and \<open>None\<close>
  for a text that encodes, whose tokens \<open>encode\<close> gives. \<open>encoding_for_model\<close> raises
  \<open>KeyError\<close> for a model it does not know (\<open>None\<close> here), \<open>get_encoding\<close> returns a
  named encoding.
\<close>

record tokenizer =
  encode :: "string \<Rightarrow> nat list"
  encode_raises :: "string \<Rightarrow> py_error option"
  decode :: "nat list \<Rightarrow> string"

record tiktoken =
  encoding_for_model :: "string \<Rightarrow> tokenizer option"
  get_encoding :: "string \<Rightarrow> tokenizer"

definition get_tokenizer :: "tiktoken \<Rightarrow> string \<Rightarrow> tokenizer" where
  "get_tokenizer tk model_name =
     (case encoding_for_model tk model_name of
        Some t \<Rightarrow> t
      | None \<Rightarrow> get_encoding tk ''cl100k_base'')"

text \<open>\<open>count_tokens\<close> does not catch what \<open>tokenizer.encode\<close> raises.\<close>

definition count_tokens :: "tiktoken \<Rightarrow> string \<Rightarrow> string \<Rightarrow> py_error + nat" where
  "count_tokens tk text model_name =
     (let tokenizer = get_tokenizer tk model_name in
      case encode_raises tokenizer text of
        Some e \<Rightarrow> Inl e
      | None \<Rightarrow> (let tokens = encode tokenizer text in Inr (length tokens)))"

text \<open>
  The \<open>while\<close> loop of \<open>split_text_into_chunks\<close>, with the loop variables
  \<open>current_pos\<close> and \<open>chunks\<close> as arguments. The loop need not end, so the result is an
  option: \<open>None\<close> is a run that never returns. The decoder is an argument; with the
  identity for it the loop returns the token windows themselves.
  \<open>split_text_into_chunks\<close> is modelled on a text that encodes: its subject is the token
  sequence \<open>encode\<close> gives, and a text on which \<open>encode\<close> raises never reaches the loop.
\<close>

partial_function (option) chunk_loop ::
  "('a list \<Rightarrow> 'c) \<Rightarrow> 'a list \<Rightarrow> int \<Rightarrow> int \<Rightarrow> int \<Rightarrow> 'c list \<Rightarrow> 'c list option"
where
  "chunk_loop decode_fn tokens max_tokens_per_chunk overlap_tokens current_pos chunks =
     (if current_pos < int (length tokens) then
        (let end_pos = min (current_pos + max_tokens_per_chunk) (int (length tokens));
             chunk_tokens = py_slice tokens current_pos end_pos;
             chunk_text = decode_fn chunk_tokens;
             chunks = chunks @ [chunk_text]
         in if end_pos = int (length tokens) then Some chunks
            else (let current_pos = current_pos + (max_tokens_per_chunk - overlap_tokens)
                  in if current_pos \<ge> int (length tokens) then Some chunks
                     else chunk_loop decode_fn tokens max_tokens_per_chunk overlap_tokens
                            current_pos chunks))
      else Some chunks)"

declare chunk_loop.simps [code]

definition split_text_into_chunks ::
  "tiktoken \<Rightarrow> string \<Rightarrow> int \<Rightarrow> int \<Rightarrow> string list option" where
  "split_text_into_chunks tk text max_tokens_per_chunk overlap_tokens =
     (let tokenizer = get_tokenizer tk ''text-embedding-3-small'';
          tokens = encode tokenizer text
      in chunk_loop (decode tokenizer) tokens max_tokens_per_chunk overlap_tokens 0 [])"

text \<open>The same loop on a token sequence, returning each chunk's tokens undecoded.\<close>

definition token_windows :: "'a list \<Rightarrow> int \<Rightarrow> int \<Rightarrow> 'a list list option" where
  "token_windows tokens max_tokens_per_chunk overlap_tokens =
     chunk_loop (\<lambda>chunk_tokens. chunk_tokens) tokens max_tokens_per_chunk overlap_tokens 0 []"

text \<open>
  Reading a global name inside \<open>text_utils.py\<close>. The module binds \<open>tiktoken\<close>,
  \<open>logging\<close>, \<open>logger\<close> and its four functions; none of its globals is an integer, so
  the table of integer globals is empty. A name that is not bound raises \<open>NameError\<close>.
\<close>

definition text_utils_globals :: "string \<Rightarrow> int option" where
  "text_utils_globals = Map.empty"

definition load_global :: "(string \<Rightarrow> int option) \<Rightarrow> string \<Rightarrow> py_error + int" where
  "load_global globals name =
     (case globals name of None \<Rightarrow> Inl (NameError name) | Some v \<Rightarrow> Inr v)"

text \<open>
  The \<open>for part in parts\<close> loop of \<open>split_text_by_separator\<close>, with \<open>chunks\<close> and
  \<open>current_chunk\<close> as arguments. In the test
  \<open>current_chunk and count_tokens(...) > max_tokens_per_chunk\<close> the right operand is
  evaluated only when \<open>current_chunk\<close> is non-empty, and then the token count is taken
  before the name \<open>max_tokens_per_chunk\<close> is read: an exception of \<open>count_tokens\<close> comes
  first.
\<close>

fun separator_loop ::
  "(string \<Rightarrow> int option) \<Rightarrow> (string \<Rightarrow> py_error + nat) \<Rightarrow> string \<Rightarrow> string list \<Rightarrow>
   string list \<Rightarrow> string \<Rightarrow> py_error + (string list \<times> string)" where
  "separator_loop globals count separator [] chunks current_chunk = Inr (chunks, current_chunk)"
| "separator_loop globals count separator (p # parts) chunks current_chunk =
     (let part = py_strip p in
      if part = [] then separator_loop globals count separator parts chunks current_chunk
      else
        (case (if current_chunk \<noteq> []
               then (case count (current_chunk @ separator @ part) of
                       Inl e \<Rightarrow> Inl e
                     | Inr n \<Rightarrow>
                         (case load_global globals ''max_tokens_per_chunk'' of
                            Inl e \<Rightarrow> Inl e
                          | Inr budget \<Rightarrow> Inr (int n > budget)))
               else Inr False) of
           Inl e \<Rightarrow> Inl e
         | Inr True \<Rightarrow> separator_loop globals count separator parts (chunks @ [current_chunk]) part
         | Inr False \<Rightarrow>
             separator_loop globals count separator parts chunks
               ((if current_chunk \<noteq> [] then current_chunk @ separator else current_chunk) @ part)))"

definition split_text_by_separator ::
  "(string \<Rightarrow> int option) \<Rightarrow> tiktoken \<Rightarrow> string \<Rightarrow> string \<Rightarrow> nat \<Rightarrow> py_error + string list" where
  "split_text_by_separator globals tk text separator min_length =
     (case py_split text separator of
        Inl e \<Rightarrow> Inl e
      | Inr parts \<Rightarrow>
          (case separator_loop globals (\<lambda>t. count_tokens tk t ''text-embedding-3-small'')
                  separator parts [] [] of
             Inl e \<Rightarrow> Inl e
           | Inr (chunks, current_chunk) \<Rightarrow>
               Inr (if current_chunk \<noteq> [] then chunks @ [current_chunk] else chunks)))"

text \<open>
  Two abbreviations used to state results about the sliding window: the chunk the loop
  takes when its cursor is at \<open>pos\<close>, and the number of iterations a run makes over
  \<open>r\<close> remaining tokens with step \<open>s\<close>, where \<open>m\<close> is the larger of the chunk size and
  the step.
\<close>

definition chunk_at :: "'a list \<Rightarrow> int \<Rightarrow> int \<Rightarrow> 'a list" where
  "chunk_at tokens max_tokens_per_chunk pos =
     py_slice tokens pos (min (pos + max_tokens_per_chunk) (int (length tokens)))"

definition chunk_count :: "int \<Rightarrow> int \<Rightarrow> int \<Rightarrow> nat" where
  "chunk_count m s r =
     (if r \<le> 0 then 0 else if r \<le> m then 1 else nat (1 - ((m - r) div s)))"

text \<open>
  The reassembly the round-trip property speaks of: the first chunk whole, every later
  chunk without its first \<open>overlap\<close> tokens.
\<close>

definition concat_minus_overlap :: "nat \<Rightarrow> 'a list list \<Rightarrow> 'a list" where
  "concat_minus_overlap overlap ws =
     (case ws of [] \<Rightarrow> [] | w # rest \<Rightarrow> w @ concat (map (drop overlap) rest))"

section \<open>src/config.py, src/openai\_handler.py, src/pinecone\_manager.py\<close>

text \<open>
  The settings read from the environment are a record. The OpenAI and Pinecone clients
  are outside the repository: each SDK call is a function that returns its result or
  raises. Every call a function makes is recorded, in order, in the list it returns next
  to its result. Logging is not modelled. An index handle is an object, so \<open>not index\<close>
  holds only for the \<open>None\<close> that \<open>get_index\<close> returns after an exception.
\<close>

record config =
  EMBEDDING_MODEL :: string
  GENERATION_MODEL :: string
  PINECONE_INDEX_NAME :: string

definition TEMPERATURE :: real where
  "TEMPERATURE = 0"

datatype call = EmbeddingsCreate | PineconeIndex | IndexQuery | ChatCompletionsCreate

record match =
  match_id :: string
  metadata :: "(string \<times> json) list"

record 'v pinecone_index =
  query :: "'v \<Rightarrow> nat \<Rightarrow> bool \<Rightarrow> string \<Rightarrow> py_error + match list"

record 'v services =
  embeddings_create :: "json list \<Rightarrow> string \<Rightarrow> py_error + 'v list"
  pc_Index :: "string \<Rightarrow> py_error + 'v pinecone_index"
  chat_completions_create :: "string \<Rightarrow> string \<Rightarrow> json \<Rightarrow> real \<Rightarrow> py_error + string"

definition get_embeddings ::
  "'v services \<Rightarrow> json list \<Rightarrow> string \<Rightarrow> (py_error + 'v list) \<times> call list" where
  "get_embeddings svc texts model =
     (if texts = [] then (Inr [], [])
      else (embeddings_create svc texts model, [EmbeddingsCreate]))"

definition system_prompt :: "string \<Rightarrow> string" where
  "system_prompt context_str =
     ''\<newline>    You are a helpful AI assistant using a Retrieval Augmented Generation (RAG) system.''
     @ ''\<newline>    Answer the user's question based ONLY on the provided context. ''
     @ ''\<newline>    If the context doesn't contain enough information to answer the question, ''
     @ ''\<newline>    say '' @ [CHR 0x22]
     @ ''I don't have enough information to answer that question.'' @ [CHR 0x22]
     @ ''\<newline>    Don't make up information or use knowledge outside the provided context.''
     @ ''\<newline>    Always cite your sources from the context if possible.''
     @ ''\<newline>    \<newline>    Context:\<newline>    '' @ context_str @ ''\<newline>    ''"

definition get_chat_completion ::
  "'v services \<Rightarrow> json \<Rightarrow> json list \<Rightarrow> string \<Rightarrow> (py_error + string) \<times> call list" where
  "get_chat_completion svc user_query context model =
     (case py_join ''\<newline>\<newline>---\<newline>\<newline>'' context of
        Inl e \<Rightarrow> (Inl e, [])
      | Inr context_str \<Rightarrow>
          (chat_completions_create svc model (system_prompt context_str) user_query TEMPERATURE,
           [ChatCompletionsCreate]))"

definition get_index :: "config \<Rightarrow> 'v services \<Rightarrow> 'v pinecone_index option \<times> call list" where
  "get_index cfg svc =
     (case pc_Index svc (PINECONE_INDEX_NAME cfg) of
        Inl e \<Rightarrow> (None, [PineconeIndex])
      | Inr index \<Rightarrow> (Some index, [PineconeIndex]))"

definition get_similar_documents ::
  "config \<Rightarrow> 'v services \<Rightarrow> 'v \<Rightarrow> nat \<Rightarrow> string \<Rightarrow> match list \<times> call list" where
  "get_similar_documents cfg svc query_embedding top_k namespace =
     (case get_index cfg svc of
        (None, c1) \<Rightarrow> ([], c1)
      | (Some index, c1) \<Rightarrow>
          (case query index query_embedding top_k True namespace of
             Inl e \<Rightarrow> ([], c1 @ [IndexQuery])
           | Inr matches \<Rightarrow> (matches, c1 @ [IndexQuery])))"

section \<open>routes.py\<close>

text \<open>
  Modelled from the spec: \<open>dto/query_dto.py\<close> is not among the sources; the request body
  is \<open>{question: string}\<close> and the response
  \<open>{answer: string, retrieved_context: list}\<close>.
\<close>

record ChatQuery =
  question :: string

record ChatResponse =
  answer :: string
  retrieved_context :: "json list"

datatype http_exception = HTTPException nat string

definition fallback_answer :: string where
  "fallback_answer = ''I couldn't find any relevant information to answer your question.''"

text \<open>\<open>[doc['metadata']['text'] for doc in similar_docs]\<close>\<close>

fun routes_context_texts :: "match list \<Rightarrow> py_error + json list" where
  "routes_context_texts [] = Inr []"
| "routes_context_texts (doc # docs) =
     (case map_of (rev (metadata doc)) ''text'' of
        None \<Rightarrow> Inl (KeyError ''text'')
      | Some t \<Rightarrow>
          (case routes_context_texts docs of Inl e \<Rightarrow> Inl e | Inr ts \<Rightarrow> Inr (t # ts)))"

text \<open>The body of the \<open>try\<close> block of \<open>chat\<close>.\<close>

definition routes_chat_try ::
  "config \<Rightarrow> 'v services \<Rightarrow> ChatQuery \<Rightarrow> (py_error + ChatResponse) \<times> call list" where
  "routes_chat_try cfg svc q =
     (case get_embeddings svc [JStr (question q)] (EMBEDDING_MODEL cfg) of
        (Inl e, c1) \<Rightarrow> (Inl e, c1)
      | (Inr embeddings, c1) \<Rightarrow>
          (case embeddings of
             [] \<Rightarrow> (Inl (IndexError ''list index out of range''), c1)
           | query_embedding # _ \<Rightarrow>
               (case get_similar_documents cfg svc query_embedding 5 [] of
                  (similar_docs, c2) \<Rightarrow>
                    if similar_docs = []
                    then (Inr \<lparr>answer = fallback_answer, retrieved_context = []\<rparr>, c1 @ c2)
                    else
                      (case routes_context_texts similar_docs of
                         Inl e \<Rightarrow> (Inl e, c1 @ c2)
                       | Inr context_texts \<Rightarrow>
                           (case get_chat_completion svc (JStr (question q)) context_texts
                                   (GENERATION_MODEL cfg) of
                              (Inl e, c3) \<Rightarrow> (Inl e, c1 @ c2 @ c3)
                            | (Inr a, c3) \<Rightarrow>
                                (Inr \<lparr>answer = a, retrieved_context = context_texts\<rparr>,
                                 c1 @ c2 @ c3))))))"

definition routes_chat ::
  "config \<Rightarrow> 'v services \<Rightarrow> ChatQuery \<Rightarrow> (http_exception + ChatResponse) \<times> call list" where
  "routes_chat cfg svc q =
     (case routes_chat_try cfg svc q of
        (Inl e, calls) \<Rightarrow>
          (Inl (HTTPException 500 (''An error occurred: '' @ str_of_error e)), calls)
      | (Inr response, calls) \<Rightarrow> (Inr response, calls))"

section \<open>flask\_routes.py\<close>

text \<open>
  A Flask response is its JSON body and its status code. The request is what
  \<open>request.get_json()\<close> gives: the decoded body (\<open>JNull\<close> for \<open>None\<close>), or the exception
  it raises.
\<close>

definition flask_context_texts :: "match list \<Rightarrow> json list" where
  "flask_context_texts similar_docs =
     map (\<lambda>doc. case map_of (rev (metadata doc)) ''text'' of None \<Rightarrow> JStr [] | Some t \<Rightarrow> t)
       similar_docs"

definition flask_chat_try ::
  "config \<Rightarrow> 'v services \<Rightarrow> py_error + json \<Rightarrow> (py_error + json \<times> nat) \<times> call list" where
  "flask_chat_try cfg svc request_json =
     (case request_json of
        Inl e \<Rightarrow> (Inl e, [])
      | Inr data \<Rightarrow>
          (case (if py_not data then Inr True
                 else (case py_in ''question'' data of Inl e \<Rightarrow> Inl e | Inr b \<Rightarrow> Inr (\<not> b))) of
             Inl e \<Rightarrow> (Inl e, [])
           | Inr True \<Rightarrow>
               (Inr (JDict [(''error'', JStr ''Missing question in request'')], 400), [])
           | Inr False \<Rightarrow>
               (case py_getitem data ''question'' of
                  Inl e \<Rightarrow> (Inl e, [])
                | Inr question_value \<Rightarrow>
                    (case get_embeddings svc [question_value] (EMBEDDING_MODEL cfg) of
                       (Inl e, c1) \<Rightarrow> (Inl e, c1)
                     | (Inr embeddings, c1) \<Rightarrow>
                         (case embeddings of
                            [] \<Rightarrow> (Inl (IndexError ''list index out of range''), c1)
                          | query_embedding # _ \<Rightarrow>
                              (case get_similar_documents cfg svc query_embedding 5 [] of
                                 (similar_docs, c2) \<Rightarrow>
                                   if similar_docs = []
                                   then (Inr (JDict [(''answer'', JStr fallback_answer),
                                                     (''retrieved_context'', JList [])], 200),
                                         c1 @ c2)
                                   else
                                     (let context_texts = flask_context_texts similar_docs in
                                      case get_chat_completion svc question_value context_texts
                                             (GENERATION_MODEL cfg) of
                                        (Inl e, c3) \<Rightarrow> (Inl e, c1 @ c2 @ c3)
                                      | (Inr a, c3) \<Rightarrow>
                                          (Inr (JDict [(''answer'', JStr a),
                                                       (''retrieved_context'', JList context_texts)],
                                                200),
                                           c1 @ c2 @ c3))))))))"

definition flask_chat ::
  "config \<Rightarrow> 'v services \<Rightarrow> py_error + json \<Rightarrow> (json \<times> nat) \<times> call list" where
  "flask_chat cfg svc request_json =
     (case flask_chat_try cfg svc request_json of
        (Inl e, calls) \<Rightarrow>
          ((JDict [(''error'', JStr (''An error occurred: '' @ str_of_error e))], 500), calls)
      | (Inr response, calls) \<Rightarrow> (response, calls))"

section \<open>Example collaborators\<close>

text \<open>
  Concrete stand-ins for the external libraries, used where a statement is evaluated on an
  input: a tokenizer with one token per character that never raises, the same tokenizer
  refusing a text that contains \<open><|endoftext|>\<close>, the default settings of
  \<open>config.py\<close>, and services over one-number embeddings whose vector store is empty,
  fails on \<open>query\<close>, or cannot be reached; in the last one the embedding call fails.
\<close>

definition char_tokenizer :: tokenizer where
  "char_tokenizer = \<lparr>encode = map of_char, encode_raises = (\<lambda>text. None),
                       decode = map char_of\<rparr>"

definition char_tiktoken :: tiktoken where
  "char_tiktoken = \<lparr>encoding_for_model = (\<lambda>model_name. None),
                      get_encoding = (\<lambda>name. char_tokenizer)\<rparr>"

definition special_token_error :: py_error where
  "special_token_error =
     ValueError (''Encountered text corresponding to disallowed special token ''
                 @ [CHR 0x27] @ ''<|endoftext|>'' @ [CHR 0x27] @ ''.'')"

definition strict_tokenizer :: tokenizer where
  "strict_tokenizer =
     \<lparr>encode = map of_char,
      encode_raises = (\<lambda>text. if str_contains ''<|endoftext|>'' text
                              then Some special_token_error else None),
      decode = map char_of\<rparr>"

definition strict_tiktoken :: tiktoken where
  "strict_tiktoken = \<lparr>encoding_for_model = (\<lambda>model_name. None),
                        get_encoding = (\<lambda>name. strict_tokenizer)\<rparr>"

definition default_config :: config where
  "default_config = \<lparr>EMBEDDING_MODEL = ''text-embedding-3-small'',
                       GENERATION_MODEL = ''gpt-4o'',
                       PINECONE_INDEX_NAME = ''rag-chatbot''\<rparr>"

definition services_empty_store :: "nat services" where
  "services_empty_store =
     \<lparr>embeddings_create = (\<lambda>texts model. Inr (map (\<lambda>t. 0) texts)),
      pc_Index = (\<lambda>name. Inr \<lparr>query = (\<lambda>v top_k include_metadata namespace. Inr [])\<rparr>),
      chat_completions_create = (\<lambda>model system user temperature. Inr ''generated answer'')\<rparr>"

definition services_query_error :: "nat services" where
  "services_query_error =
     \<lparr>embeddings_create = (\<lambda>texts model. Inr (map (\<lambda>t. 0) texts)),
      pc_Index = (\<lambda>name. Inr \<lparr>query = (\<lambda>v top_k include_metadata namespace.
                                         Inl (ServiceError ''query failed''))\<rparr>),
      chat_completions_create = (\<lambda>model system user temperature. Inr ''generated answer'')\<rparr>"

definition services_store_unreachable :: "nat services" where
  "services_store_unreachable =
     \<lparr>embeddings_create = (\<lambda>texts model. Inr (map (\<lambda>t. 0) texts)),
      pc_Index = (\<lambda>name. Inl (ServiceError ''connection refused'')),
      chat_completions_create = (\<lambda>model system user temperature. Inr ''generated answer'')\<rparr>"

definition services_embedding_error :: "nat services" where
  "services_embedding_error =
     \<lparr>embeddings_create = (\<lambda>texts model. Inl (ServiceError ''embedding failed'')),
      pc_Index = (\<lambda>name. Inr \<lparr>query = (\<lambda>v top_k include_metadata namespace. Inr [])\<rparr>),
      chat_completions_create = (\<lambda>model system user temperature. Inr ''generated answer'')\<rparr>"

section \<open>The sliding window in closed form\<close>

lemma chunk_count_step:
  assumes "0 < s" "s \<le> m" "m < r"
  shows "chunk_count m s r = Suc (chunk_count m s (r - s))"
proof -
  have e: "m - (r - s) = (m - r) + s" by simp
  have d: "(m - (r - s)) div s = (m - r) div s + 1"
    unfolding e using assms by simp
  show ?thesis
  proof (cases "r - s \<le> m")
    case True
    have "(m - r) div s = -1"
      by (rule int_div_pos_eq[where r = "m - r + s"]) (use assms True in auto)
    then show ?thesis using assms True by (simp add: chunk_count_def)
  next
    case False
    have "(m - (r - s)) div s < 0" using False assms
      by (simp add: div_neg_pos_less0)
    then show ?thesis using assms False d by (simp add: chunk_count_def nat_diff_distrib)
  qed
qed

lemma chunk_count_start:
  assumes "0 < s" "s \<le> m"
  shows "k < chunk_count m s r \<Longrightarrow> int k * s < r"
proof (induction k arbitrary: r)
  case 0
  then show ?case by (simp add: chunk_count_def split: if_splits)
next
  case (Suc k)
  have "m < r" using Suc.prems by (simp add: chunk_count_def split: if_splits)
  then have "chunk_count m s r = Suc (chunk_count m s (r - s))"
    using assms by (intro chunk_count_step)
  with Suc.prems have "k < chunk_count m s (r - s)" by simp
  then have "int k * s < r - s" by (rule Suc.IH)
  then show ?case by (simp add: algebra_simps)
qed

lemma chunk_count_last:
  assumes "0 < s" "s \<le> m"
  shows "0 < r \<Longrightarrow> 0 < chunk_count m s r \<and> r \<le> int (chunk_count m s r - 1) * s + m"
proof (induction "nat r" arbitrary: r rule: less_induct)
  case less
  show ?case
  proof (cases "r \<le> m")
    case True
    then show ?thesis using less.prems by (simp add: chunk_count_def)
  next
    case False
    then have st: "chunk_count m s r = Suc (chunk_count m s (r - s))"
      using assms by (intro chunk_count_step) auto
    have "0 < chunk_count m s (r - s) \<and> r - s \<le> int (chunk_count m s (r - s) - 1) * s + m"
      using False assms less.prems by (intro less) auto
    then show ?thesis unfolding st
      by (cases "chunk_count m s (r - s)") (auto simp add: algebra_simps)
  qed
qed

lemma upt_0_Suc_map: "[0..<Suc n] = 0 # map Suc [0..<n]"
  by (simp add: upt_conv_Cons map_Suc_upt del: upt_Suc)

lemma chunk_at_take_drop:
  assumes "0 \<le> p" "0 \<le> mx"
  shows "chunk_at tokens mx p = take (nat mx) (drop (nat p) tokens)"
  using assms
  by (auto simp add: chunk_at_def py_slice_def Let_def min_def nat_diff_distrib nat_add_distrib)

text \<open>
  With a positive step the loop returns from every state: it appends the chunks at
  \<open>pos\<close>, \<open>pos + s\<close>, \<open>pos + 2s\<close>, ... and stops after \<open>chunk_count\<close> of them.
\<close>

lemma chunk_loop_closed:
  fixes tokens :: "'a list"
  assumes s: "ov < mx"
  shows "chunk_loop dec tokens mx ov pos chunks =
         Some (chunks @ map (\<lambda>k. dec (chunk_at tokens mx (pos + int k * (mx - ov))))
                 [0..<chunk_count (max mx (mx - ov)) (mx - ov) (int (length tokens) - pos)])"
proof (induction "nat (int (length tokens) - pos)" arbitrary: pos chunks rule: less_induct)
  case less
  let ?N = "int (length tokens)"
  let ?s = "mx - ov"
  let ?m = "max mx ?s"
  show ?case
  proof (cases "pos < ?N")
    case False
    then show ?thesis
      by (subst chunk_loop.simps) (simp add: chunk_count_def)
  next
    case True
    show ?thesis
    proof (cases "?N - pos \<le> ?m")
      case le: True
      have c: "chunk_count ?m ?s (?N - pos) = 1"
        using True le by (simp add: chunk_count_def)
      have unf: "chunk_loop dec tokens mx ov pos chunks =
           Some (chunks @ [dec (chunk_at tokens mx pos)])"
        using True le
        by (subst chunk_loop.simps)
           (auto simp add: chunk_at_def Let_def min_def max_def split: if_splits)
      show ?thesis
        unfolding unf c by simp
    next
      case gt: False
      have c: "chunk_count ?m ?s (?N - pos) = Suc (chunk_count ?m ?s (?N - (pos + ?s)))"
        using chunk_count_step[of ?s ?m "?N - pos"] s gt by (simp add: algebra_simps)
      have ih: "chunk_loop dec tokens mx ov (pos + ?s) (chunks @ [dec (chunk_at tokens mx pos)]) =
            Some ((chunks @ [dec (chunk_at tokens mx pos)]) @
              map (\<lambda>k. dec (chunk_at tokens mx (pos + ?s + int k * ?s)))
                [0..<chunk_count ?m ?s (?N - (pos + ?s))])"
        using s True by (intro less) auto
      have unf: "chunk_loop dec tokens mx ov pos chunks =
           chunk_loop dec tokens mx ov (pos + ?s) (chunks @ [dec (chunk_at tokens mx pos)])"
        using True gt
        by (subst chunk_loop.simps)
           (auto simp add: chunk_at_def Let_def min_def max_def split: if_splits)
      show ?thesis
        unfolding unf ih c upt_0_Suc_map
        by (simp add: o_def algebra_simps)
    qed
  qed
qed

text \<open>
  With a step that is zero or negative, a run whose first chunk does not reach the end of
  the tokens never returns.
\<close>

lemma chunk_loop_diverges:
  assumes "chunk_loop dec tokens mx ov pos chunks = Some r"
  shows "\<not> (0 < mx \<and> mx \<le> ov \<and> pos + mx < int (length tokens))"
  using assms
proof (induct rule: chunk_loop.raw_induct[rotated, consumes 1, case_names step])
  case (step f dec tokens mx ov pos chunks r)
  show ?case
  proof
    assume a: "0 < mx \<and> mx \<le> ov \<and> pos + mx < int (length tokens)"
    with step(2) have "f dec tokens mx ov (pos + (mx - ov))
        (chunks @ [dec (py_slice tokens pos (pos + mx))]) = Some r"
      by (auto simp add: Let_def min_def split: if_splits)
    then have "\<not> (0 < mx \<and> mx \<le> ov \<and> pos + (mx - ov) + mx < int (length tokens))"
      by (rule step(1))
    with a show False by auto
  qed
qed

lemma chunk_loop_top:
  fixes tokens :: "'a list"
  assumes "0 < mx" and "ov < mx \<or> int (length tokens) \<le> mx"
  shows "chunk_loop dec tokens mx ov 0 [] =
         Some (map (\<lambda>k. dec (take (nat mx) (drop (nat (int k * (mx - ov))) tokens)))
                 [0..<chunk_count (max mx (mx - ov)) (mx - ov) (int (length tokens))])"
proof (cases "ov < mx")
  case True
  have eq: "chunk_at tokens mx (int k * (mx - ov)) =
        take (nat mx) (drop (nat (int k * (mx - ov))) tokens)" for k
    using True assms(1) by (intro chunk_at_take_drop) auto
  show ?thesis
    using chunk_loop_closed[OF True, of dec tokens 0 "[]"] by (simp add: eq)
next
  case False
  with assms have le: "int (length tokens) \<le> mx" by simp
  show ?thesis
  proof (cases "tokens = []")
    case True
    then show ?thesis by (subst chunk_loop.simps) (simp add: chunk_count_def)
  next
    case ne: False
    then have c: "chunk_count (max mx (mx - ov)) (mx - ov) (int (length tokens)) = 1"
      using le by (simp add: chunk_count_def)
    show ?thesis unfolding c using ne le assms(1)
      by (subst chunk_loop.simps) (simp add: Let_def py_slice_def min_def)
  qed
qed

lemma chunk_loop_top_None:
  assumes "0 < mx" "mx \<le> ov" "mx < int (length tokens)"
  shows "chunk_loop dec tokens mx ov 0 [] = None"
proof (cases "chunk_loop dec tokens mx ov 0 []")
  case None
  then show ?thesis .
next
  case (Some r)
  then show ?thesis using chunk_loop_diverges[OF Some] assms by simp
qed

lemma chunk_count_top_start:
  assumes "0 < mx" and "ov < mx \<or> r \<le> mx"
    and "k < chunk_count (max mx (mx - ov)) (mx - ov) r"
  shows "0 \<le> int k * (mx - ov) \<and> int k * (mx - ov) < r"
proof (cases "ov < mx")
  case True
  then show ?thesis
    using chunk_count_start[of "mx - ov" "max mx (mx - ov)" k r] assms(3) by simp
next
  case False
  with assms have "r \<le> mx" by simp
  then show ?thesis using assms(3) by (simp add: chunk_count_def split: if_splits)
qed

lemma chunk_count_top_many:
  assumes "0 < mx" and "ov < mx \<or> r \<le> mx"
    and "1 < chunk_count (max mx (mx - ov)) (mx - ov) r"
  shows "0 < mx - ov"
proof (cases "ov < mx")
  case True
  then show ?thesis by simp
next
  case False
  with assms have "r \<le> mx" by simp
  then show ?thesis using assms(3) by (simp add: chunk_count_def split: if_splits)
qed

lemma chunk_count_ceiling:
  assumes "0 \<le> ov" "ov < mx" "ov < N"
  shows "int (chunk_count mx (mx - ov) N) = \<lceil>real_of_int (N - ov) / real_of_int (mx - ov)\<rceil>"
proof -
  have cd: "\<lceil>real_of_int (N - ov) / real_of_int (mx - ov)\<rceil> = - ((ov - N) div (mx - ov))"
    by (simp only: ceiling_divide_eq_div) simp
  have g: "(a + b) div b = a div b + 1" if "b \<noteq> 0" for a b :: int
    using that by simp
  have d: "(mx - N) div (mx - ov) = (ov - N) div (mx - ov) + 1"
    using g[of "mx - ov" "ov - N"] assms by simp
  show ?thesis
  proof (cases "N \<le> mx")
    case True
    have "(ov - N) div (mx - ov) = -1"
      by (rule int_div_pos_eq[where r = "mx - N"]) (use assms True in auto)
    then show ?thesis using assms True cd by (simp add: chunk_count_def)
  next
    case False
    have "(mx - N) div (mx - ov) < 0" using False assms
      by (simp add: div_neg_pos_less0)
    then show ?thesis using assms False d cd by (simp add: chunk_count_def)
  qed
qed

lemma split_text_into_chunks_windows:
  "split_text_into_chunks tk text mx ov =
     chunk_loop (decode (get_tokenizer tk ''text-embedding-3-small''))
       (encode (get_tokenizer tk ''text-embedding-3-small'') text) mx ov 0 []"
  by (simp add: split_text_into_chunks_def Let_def)

section \<open>Claims about the sliding-window chunker\<close>

text \<open>
  C2. For every text and all parameters with \<open>max_tokens_per_chunk > 0\<close> and
  \<open>0 \<le> overlap_tokens < max_tokens_per_chunk\<close>, \<open>split_text_into_chunks\<close> returns;
  so does its loop from any state, and each iteration that continues moves the cursor
  strictly forward.
\<close>
theorem split_text_into_chunks_terminates:
  assumes "0 < max_tokens_per_chunk" and "0 \<le> overlap_tokens"
    and "overlap_tokens < max_tokens_per_chunk"
  shows "(\<exists>chunks. split_text_into_chunks tk text max_tokens_per_chunk overlap_tokens = Some chunks)
       \<and> (\<exists>result. chunk_loop decode_fn tokens max_tokens_per_chunk overlap_tokens current_pos chunks
              = Some result)
       \<and> current_pos < current_pos + (max_tokens_per_chunk - overlap_tokens)"
  using assms
  by (simp add: split_text_into_chunks_windows chunk_loop_closed)

theorem split_text_into_chunks_terminates_witness:
  "(0::int) < 3 \<and> (0::int) \<le> 1 \<and> (1::int) < 3
   \<and> (\<exists>chunks. split_text_into_chunks char_tiktoken ''abcde'' 3 1 = Some chunks)
   \<and> split_text_into_chunks char_tiktoken ''abcde'' 3 1 = Some [''abc'', ''cde'']"
proof -
  have v: "split_text_into_chunks char_tiktoken ''abcde'' 3 1 = Some [''abc'', ''cde'']"
    by code_simp
  show ?thesis
    using split_text_into_chunks_terminates[of 3 1 char_tiktoken "''abcde''"] v by simp
qed

text \<open>
  C1, as amended. With \<open>N\<close> the number of tokens of the text,
  \<open>max_tokens_per_chunk > 0\<close> and \<open>0 \<le> overlap_tokens < max_tokens_per_chunk\<close>,
  \<open>split_text_into_chunks\<close> returns no chunk when \<open>N = 0\<close>, one chunk when
  \<open>0 < N \<le> overlap_tokens\<close>, and
  \<open>ceil((N - overlap_tokens) / (max_tokens_per_chunk - overlap_tokens))\<close> chunks when
  \<open>N > overlap_tokens\<close>; 1900 tokens with chunk size 500 and overlap 50 give 5 chunks.
\<close>
theorem split_text_into_chunks_count:
  assumes "0 < max_tokens_per_chunk" and "0 \<le> overlap_tokens"
    and "overlap_tokens < max_tokens_per_chunk"
  shows "let N = int (length (encode (get_tokenizer tk ''text-embedding-3-small'') text)) in
         \<exists>chunks. split_text_into_chunks tk text max_tokens_per_chunk overlap_tokens = Some chunks
           \<and> int (length chunks) =
               (if N = 0 then 0
                else if N \<le> overlap_tokens then 1
                else \<lceil>real_of_int (N - overlap_tokens)
                        / real_of_int (max_tokens_per_chunk - overlap_tokens)\<rceil>)
           \<and> (N = 1900 \<and> max_tokens_per_chunk = 500 \<and> overlap_tokens = 50 \<longrightarrow> length chunks = 5)"
proof -
  let ?tok = "get_tokenizer tk ''text-embedding-3-small''"
  let ?tokens = "encode ?tok text"
  let ?N = "int (length ?tokens)"
  let ?n = "chunk_count max_tokens_per_chunk (max_tokens_per_chunk - overlap_tokens) ?N"
  have m: "max max_tokens_per_chunk (max_tokens_per_chunk - overlap_tokens) = max_tokens_per_chunk"
    using assms by simp
  have run: "split_text_into_chunks tk text max_tokens_per_chunk overlap_tokens =
      Some (map (\<lambda>k. decode ?tok (take (nat max_tokens_per_chunk)
              (drop (nat (int k * (max_tokens_per_chunk - overlap_tokens))) ?tokens))) [0..<?n])"
    using chunk_loop_top[of max_tokens_per_chunk overlap_tokens ?tokens "decode ?tok"] assms
    by (simp add: split_text_into_chunks_windows m)
  have count: "int ?n =
      (if ?N = 0 then 0 else if ?N \<le> overlap_tokens then 1
       else \<lceil>real_of_int (?N - overlap_tokens)
               / real_of_int (max_tokens_per_chunk - overlap_tokens)\<rceil>)"
  proof (cases "?N \<le> overlap_tokens")
    case True
    then show ?thesis using assms by (simp add: chunk_count_def)
  next
    case False
    then have gt: "overlap_tokens < ?N" by simp
    then have ne: "?N \<noteq> 0" using assms(2) by linarith
    show ?thesis
      unfolding chunk_count_ceiling[OF assms(2) assms(3) gt] using False ne by simp
  qed
  have ex: "?n = 5" if "?N = 1900" "max_tokens_per_chunk = 500" "overlap_tokens = 50"
    using that by (simp add: chunk_count_def)
  show ?thesis
    unfolding Let_def run using count ex by simp
qed

theorem split_text_into_chunks_count_witness:
  "(\<exists>chunks. split_text_into_chunks char_tiktoken ''abcde'' 3 1 = Some chunks
      \<and> int (length chunks) = \<lceil>real_of_int (5 - 1) / real_of_int (3 - 1)\<rceil>)
   \<and> (\<exists>chunks. split_text_into_chunks char_tiktoken (replicate 1900 (CHR ''a'')) 500 50 = Some chunks
      \<and> length chunks = 5)
   \<and> (\<exists>chunks. split_text_into_chunks char_tiktoken ''a'' 3 1 = Some chunks \<and> length chunks = 1)
   \<and> (\<exists>chunks. split_text_into_chunks char_tiktoken [] 3 1 = Some chunks \<and> length chunks = 0)"
proof -
  have t: "get_tokenizer char_tiktoken ''text-embedding-3-small'' = char_tokenizer"
    by (simp add: get_tokenizer_def char_tiktoken_def)
  have e: "length (encode char_tokenizer s) = length s" for s
    by (simp add: char_tokenizer_def)
  show ?thesis
    using split_text_into_chunks_count[of 3 1 char_tiktoken "''abcde''"]
      split_text_into_chunks_count[of 500 50 char_tiktoken "replicate 1900 (CHR ''a'')"]
      split_text_into_chunks_count[of 3 1 char_tiktoken "''a''"]
      split_text_into_chunks_count[of 3 1 char_tiktoken "[]"]
    by (simp add: t e Let_def)
qed

text \<open>
  C1 as stated fails on a text no longer than the overlap: one token with chunk size 3
  and overlap 1 gives one chunk, where the formula gives \<open>ceil(0 / 2) = 0\<close>.
\<close>

theorem split_text_into_chunks_count_counterexample:
  "split_text_into_chunks char_tiktoken ''a'' 3 1 = Some [''a'']
   \<and> length (encode (get_tokenizer char_tiktoken ''text-embedding-3-small'') ''a'') = 1
   \<and> \<lceil>real_of_int (1 - 1) / real_of_int (3 - 1)\<rceil> = 0"
proof -
  have "split_text_into_chunks char_tiktoken ''a'' 3 1 = Some [''a'']"
    by code_simp
  moreover have "length (encode (get_tokenizer char_tiktoken ''text-embedding-3-small'') ''a'') = 1"
    by (simp add: get_tokenizer_def char_tiktoken_def char_tokenizer_def)
  ultimately show ?thesis by simp
qed

lemma token_windows_top:
  fixes tokens :: "'a list"
  assumes "0 < mx" and "ov < mx \<or> int (length tokens) \<le> mx"
  shows "token_windows tokens mx ov =
         Some (map (\<lambda>k. take (nat mx) (drop (nat (int k * (mx - ov))) tokens))
                 [0..<chunk_count (max mx (mx - ov)) (mx - ov) (int (length tokens))])"
  unfolding token_windows_def using chunk_loop_top[OF assms, of "\<lambda>chunk_tokens. chunk_tokens"] .

lemma reassemble_prefix:
  fixes tokens :: "'a list"
  shows "take (S + V) tokens
           @ concat (map (\<lambda>k. drop V (take (S + V) (drop (k * S) tokens))) [1..<Suc j])
         = take (j * S + (S + V)) tokens"
proof (induction j)
  case 0
  show ?case by simp
next
  case (Suc j)
  have last: "drop V (take (S + V) (drop (Suc j * S) tokens))
            = take S (drop (j * S + (S + V)) tokens)"
    by (simp add: drop_take ac_simps)
  have "take (S + V) tokens
           @ concat (map (\<lambda>k. drop V (take (S + V) (drop (k * S) tokens))) [1..<Suc (Suc j)])
        = take (j * S + (S + V)) tokens @ take S (drop (j * S + (S + V)) tokens)"
    using Suc.IH last by simp
  also have "\<dots> = take (j * S + (S + V) + S) tokens"
    by (simp only: take_add)
  also have "j * S + (S + V) + S = Suc j * S + (S + V)"
    by simp
  finally show ?case .
qed

lemma concat_minus_overlap_windows:
  fixes tokens :: "'a list"
  assumes "length tokens \<le> n * S + (S + V)"
  shows "concat_minus_overlap V (map (\<lambda>k. take (S + V) (drop (k * S) tokens)) [0..<Suc n]) = tokens"
proof -
  have "concat_minus_overlap V (map (\<lambda>k. take (S + V) (drop (k * S) tokens)) [0..<Suc n])
        = take (S + V) tokens
           @ concat (map (\<lambda>k. drop V (take (S + V) (drop (k * S) tokens))) [1..<Suc n])"
    by (simp add: concat_minus_overlap_def upt_conv_Cons o_def del: upt_Suc)
  also have "\<dots> = take (n * S + (S + V)) tokens"
    by (rule reassemble_prefix)
  also have "\<dots> = tokens"
    using assms by simp
  finally show ?thesis .
qed

text \<open>
  C8. For every text and all parameters with \<open>max_tokens_per_chunk > 0\<close>, whenever
  \<open>split_text_into_chunks\<close> returns, its chunks are the decoded token windows, the
  \<open>k\<close>-th window starts at token \<open>k * (max_tokens_per_chunk - overlap_tokens)\<close> inside
  the text and holds the next \<open>max_tokens_per_chunk\<close> tokens at most, and the starting
  positions increase with \<open>k\<close>. It does return when
  \<open>overlap_tokens < max_tokens_per_chunk\<close>.
\<close>
theorem chunks_bounded_and_ordered:
  assumes "0 < max_tokens_per_chunk"
  shows
    "let tokenizer = get_tokenizer tk ''text-embedding-3-small'';
         tokens = encode tokenizer text;
         step = max_tokens_per_chunk - overlap_tokens
     in (overlap_tokens < max_tokens_per_chunk \<longrightarrow>
           (\<exists>chunks. split_text_into_chunks tk text max_tokens_per_chunk overlap_tokens
              = Some chunks))
      \<and> (\<forall>chunks. split_text_into_chunks tk text max_tokens_per_chunk overlap_tokens
              = Some chunks \<longrightarrow>
           (\<exists>ws. token_windows tokens max_tokens_per_chunk overlap_tokens = Some ws
              \<and> chunks = map (decode tokenizer) ws
              \<and> (\<forall>k < length ws.
                    0 \<le> int k * step \<and> int k * step < int (length tokens)
                  \<and> ws ! k = take (nat max_tokens_per_chunk) (drop (nat (int k * step)) tokens)
                  \<and> int (length (ws ! k)) \<le> max_tokens_per_chunk)
              \<and> (\<forall>j k. j < k \<and> k < length ws \<longrightarrow> int j * step < int k * step)))"
proof -
  let ?tok = "get_tokenizer tk ''text-embedding-3-small''"
  let ?tokens = "encode ?tok text"
  let ?N = "int (length ?tokens)"
  let ?mx = max_tokens_per_chunk
  let ?s = "?mx - overlap_tokens"
  let ?n = "chunk_count (max ?mx ?s) ?s ?N"
  let ?W = "\<lambda>k. take (nat ?mx) (drop (nat (int k * ?s)) ?tokens)"
  show ?thesis
  proof (cases "overlap_tokens < ?mx \<or> ?N \<le> ?mx")
    case True
    have run: "split_text_into_chunks tk text ?mx overlap_tokens =
        Some (map (decode ?tok) (map ?W [0..<?n]))"
      using chunk_loop_top[OF assms True, of "decode ?tok"]
      by (simp add: split_text_into_chunks_windows o_def)
    have win: "token_windows ?tokens ?mx overlap_tokens = Some (map ?W [0..<?n])"
      using token_windows_top[OF assms True] .
    have pos: "0 \<le> int k * ?s \<and> int k * ?s < ?N" if "k < ?n" for k
      using chunk_count_top_start[OF assms True that] .
    have len: "int (length (?W k)) \<le> ?mx" for k
      using assms by simp
    have ord: "int j * ?s < int k * ?s" if "j < k" "k < ?n" for j k
    proof -
      from that have "1 < ?n" by simp
      then have "0 < ?s" using chunk_count_top_many[OF assms True] by simp
      with that(1) show ?thesis by simp
    qed
    show ?thesis
      unfolding Let_def run win using pos len ord by simp
  next
    case False
    then have "split_text_into_chunks tk text ?mx overlap_tokens = None"
      using chunk_loop_top_None[of ?mx overlap_tokens ?tokens "decode ?tok"] assms
      by (simp add: split_text_into_chunks_windows)
    then show ?thesis using False by (simp add: Let_def)
  qed
qed


theorem chunks_bounded_and_ordered_witness:
  "(0::int) < 3 \<and> (1::int) < 3
   \<and> (\<exists>chunks. split_text_into_chunks char_tiktoken ''abcde'' 3 1 = Some chunks)
   \<and> split_text_into_chunks char_tiktoken ''abcde'' 3 1 = Some [''abc'', ''cde'']
   \<and> token_windows [97, 98, 99, 100, 101 :: nat] 3 1 = Some [[97, 98, 99], [99, 100, 101]]
   \<and> list_all (\<lambda>w. int (length w) \<le> 3) [[97, 98, 99], [99, 100, 101 :: nat]]"
proof -
  have h: "(0::int) < 3" by simp
  have v: "split_text_into_chunks char_tiktoken ''abcde'' 3 1 = Some [''abc'', ''cde'']"
    by code_simp
  have w: "token_windows [97, 98, 99, 100, 101 :: nat] 3 1 = Some [[97, 98, 99], [99, 100, 101]]"
    by code_simp
  from chunks_bounded_and_ordered[OF h, of char_tiktoken "''abcde''" 1]
  have ex: "\<exists>chunks. split_text_into_chunks char_tiktoken ''abcde'' 3 1 = Some chunks"
    by (simp add: Let_def)
  show ?thesis
    using ex by (simp add: v w)
qed

lemma concat_minus_overlap_0: "concat_minus_overlap 0 ws = concat ws"
  by (cases ws) (simp_all add: concat_minus_overlap_def)

text \<open>
  C3. For every text and all parameters with
  \<open>0 \<le> overlap_tokens < max_tokens_per_chunk\<close>, the chunks are the decoded token
  windows, and the first window followed by every later window without its first
  \<open>overlap_tokens\<close> tokens is the token sequence of the text. With
  \<open>overlap_tokens = 0\<close> the windows are the consecutive blocks of
  \<open>max_tokens_per_chunk\<close> tokens and their concatenation is the token sequence.
\<close>
theorem chunks_round_trip:
  assumes "0 \<le> overlap_tokens" and "overlap_tokens < max_tokens_per_chunk"
  shows
    "let tokenizer = get_tokenizer tk ''text-embedding-3-small'';
         tokens = encode tokenizer text
     in \<exists>ws. token_windows tokens max_tokens_per_chunk overlap_tokens = Some ws
          \<and> split_text_into_chunks tk text max_tokens_per_chunk overlap_tokens
              = Some (map (decode tokenizer) ws)
          \<and> concat_minus_overlap (nat overlap_tokens) ws = tokens
          \<and> (overlap_tokens = 0 \<longrightarrow>
                concat ws = tokens
              \<and> (\<forall>k < length ws.
                    ws ! k = take (nat max_tokens_per_chunk)
                               (drop (k * nat max_tokens_per_chunk) tokens)))"
proof -
  let ?tok = "get_tokenizer tk ''text-embedding-3-small''"
  let ?tokens = "encode ?tok text"
  let ?N = "int (length ?tokens)"
  let ?mx = max_tokens_per_chunk
  let ?s = "?mx - overlap_tokens"
  let ?S = "nat ?s"
  let ?V = "nat overlap_tokens"
  let ?n = "chunk_count ?mx ?s ?N"
  let ?W = "\<lambda>k. take (?S + ?V) (drop (k * ?S) ?tokens)"
  let ?ws = "map ?W [0..<?n]"
  have mx: "0 < ?mx" and m: "max ?mx ?s = ?mx" and s: "0 < ?s" "?s \<le> ?mx"
    using assms by simp_all
  have M: "nat ?mx = ?S + ?V"
    using assms by simp
  have K: "nat (int k * ?s) = k * ?S" for k
    by (simp add: nat_mult_distrib)
  have cond: "overlap_tokens < ?mx \<or> ?N \<le> ?mx"
    using assms by simp
  have win: "token_windows ?tokens ?mx overlap_tokens = Some ?ws"
    using token_windows_top[OF mx cond] by (simp add: m M K)
  have run: "split_text_into_chunks tk text ?mx overlap_tokens = Some (map (decode ?tok) ?ws)"
    using chunk_loop_top[OF mx cond, of "decode ?tok"]
    by (simp add: split_text_into_chunks_windows o_def m M K)
  have rt: "concat_minus_overlap ?V ?ws = ?tokens"
  proof (cases "?tokens = []")
    case True
    then show ?thesis by (simp add: chunk_count_def concat_minus_overlap_def)
  next
    case False
    then have "0 < ?N" by simp
    from chunk_count_last[OF s this]
    have both: "0 < ?n \<and> ?N \<le> int (?n - 1) * ?s + ?mx" .
    then obtain n' where n': "?n = Suc n'" by (cases ?n) auto
    have "?N \<le> int (n' * ?S + (?S + ?V))"
      using both assms by (simp add: n')
    then have "length ?tokens \<le> n' * ?S + (?S + ?V)"
      by linarith
    then show ?thesis
      unfolding n' by (rule concat_minus_overlap_windows)
  qed
  have tile: "concat ?ws = ?tokens" if "overlap_tokens = 0"
    using rt that by (simp add: concat_minus_overlap_0)
  have nth: "?ws ! k = take (nat ?mx) (drop (k * nat ?mx) ?tokens)"
    if "overlap_tokens = 0" "k < length ?ws" for k
    using that by simp
  show ?thesis
    unfolding Let_def
    by (rule exI[of _ ?ws]) (use win run rt tile nth in blast)
qed

theorem chunks_round_trip_witness:
  "(0::int) \<le> 1 \<and> (1::int) < 3
   \<and> token_windows [97, 98, 99, 100, 101 :: nat] 3 1 = Some [[97, 98, 99], [99, 100, 101]]
   \<and> concat_minus_overlap (nat 1) [[97, 98, 99], [99, 100, 101 :: nat]] = [97, 98, 99, 100, 101]
   \<and> token_windows [97, 98, 99, 100, 101 :: nat] 2 0 = Some [[97, 98], [99, 100], [101]]
   \<and> concat [[97, 98], [99, 100], [101 :: nat]] = [97, 98, 99, 100, 101]"
proof -
  have t: "get_tokenizer char_tiktoken ''text-embedding-3-small'' = char_tokenizer"
    by (simp add: get_tokenizer_def char_tiktoken_def)
  have e: "encode char_tokenizer ''abcde'' = [97, 98, 99, 100, 101]"
    by (simp add: char_tokenizer_def)
  have w1: "token_windows [97, 98, 99, 100, 101 :: nat] 3 1 = Some [[97, 98, 99], [99, 100, 101]]"
    by code_simp
  have w2: "token_windows [97, 98, 99, 100, 101 :: nat] 2 0 = Some [[97, 98], [99, 100], [101]]"
    by code_simp
  show ?thesis
    using chunks_round_trip[of 1 3 char_tiktoken "''abcde''"]
      chunks_round_trip[of 0 2 char_tiktoken "''abcde''"]
    by (simp add: Let_def t e w1 w2)
qed

section \<open>Claims about the separator-based chunker\<close>

lemma separator_loop_unbound_nonempty:
  assumes "globals ''max_tokens_per_chunk'' = None" and "current_chunk \<noteq> []"
  shows "separator_loop globals count separator parts chunks current_chunk =
         (case filter (\<lambda>p. p \<noteq> []) (map py_strip parts) of
            [] \<Rightarrow> Inr (chunks, current_chunk)
          | p # rest \<Rightarrow>
              (case count (current_chunk @ separator @ p) of
                 Inl e \<Rightarrow> Inl e
               | Inr n \<Rightarrow> Inl (NameError ''max_tokens_per_chunk'')))"
  using assms
  by (induction parts) (simp_all add: Let_def load_global_def split: sum.splits)

lemma separator_loop_unbound_empty:
  assumes "globals ''max_tokens_per_chunk'' = None"
  shows "separator_loop globals count separator parts chunks [] =
         (case filter (\<lambda>p. p \<noteq> []) (map py_strip parts) of
            [] \<Rightarrow> Inr (chunks, [])
          | [p] \<Rightarrow> Inr (chunks, p)
          | p # q # rest \<Rightarrow>
              (case count (p @ separator @ q) of
                 Inl e \<Rightarrow> Inl e
               | Inr n \<Rightarrow> Inl (NameError ''max_tokens_per_chunk'')))"
proof (induction parts)
  case Nil
  show ?case by simp
next
  case (Cons a parts)
  show ?case
  proof (cases "py_strip a = []")
    case True
    then show ?thesis using Cons by (simp add: Let_def)
  next
    case False
    then show ?thesis
      using separator_loop_unbound_nonempty[where globals = globals
          and current_chunk = "py_strip a", OF assms False, of count separator parts chunks]
      by (simp add: Let_def split: list.splits)
  qed
qed

text \<open>
  C10, as amended. In the module as written the name \<open>max_tokens_per_chunk\<close> is not
  bound. For a non-empty separator: a text whose split has at least two non-empty stripped
  parts makes \<open>split_text_by_separator\<close> fail, with the exception \<open>count_tokens\<close> raises
  on the first two such parts joined by the separator if it raises one, and with
  \<open>NameError\<close> for that name otherwise; a text with exactly one such part gives that part
  as the only chunk; a text with none gives no chunk.
\<close>

theorem split_text_by_separator_unbound_name:
  assumes "separator \<noteq> []"
  shows
    "let parts = filter (\<lambda>p. p \<noteq> []) (map py_strip (split_on separator [] text));
         result = split_text_by_separator text_utils_globals tk text separator min_length
     in py_split text separator = Inr (split_on separator [] text)
      \<and> (\<forall>p q rest. parts = p # q # rest \<longrightarrow>
            result = (case count_tokens tk (p @ separator @ q) ''text-embedding-3-small'' of
                        Inl e \<Rightarrow> Inl e
                      | Inr n \<Rightarrow> Inl (NameError ''max_tokens_per_chunk'')))
      \<and> (\<forall>p. parts = [p] \<longrightarrow> result = Inr [p])
      \<and> (parts = [] \<longrightarrow> result = Inr [])"
proof -
  have g: "text_utils_globals ''max_tokens_per_chunk'' = None"
    by (simp add: text_utils_globals_def)
  have ne: "p \<noteq> []" if "filter (\<lambda>p. p \<noteq> []) xs = [p]" for p :: string and xs
  proof -
    from that have "p \<in> set (filter (\<lambda>p. p \<noteq> []) xs)" by simp
    then show ?thesis by simp
  qed
  let ?parts = "filter (\<lambda>p. p \<noteq> []) (map py_strip (split_on separator [] text))"
  let ?count = "\<lambda>t. count_tokens tk t ''text-embedding-3-small''"
  have sp: "py_split text separator = Inr (split_on separator [] text)"
    using assms by (simp add: py_split_def)
  have loop: "separator_loop text_utils_globals ?count separator
                (split_on separator [] text) [] [] =
              (case ?parts of
                 [] \<Rightarrow> Inr ([], [])
               | [p] \<Rightarrow> Inr ([], p)
               | p # q # rest \<Rightarrow>
                   (case ?count (p @ separator @ q) of
                      Inl e \<Rightarrow> Inl e
                    | Inr n \<Rightarrow> Inl (NameError ''max_tokens_per_chunk'')))"
    by (rule separator_loop_unbound_empty[where globals = text_utils_globals, OF g])
  have many: "split_text_by_separator text_utils_globals tk text separator min_length
                = (case ?count (p @ separator @ q) of
                     Inl e \<Rightarrow> Inl e
                   | Inr n \<Rightarrow> Inl (NameError ''max_tokens_per_chunk''))"
    if "?parts = p # q # rest" for p q rest
    using that by (simp add: split_text_by_separator_def sp loop split: sum.splits)
  have one: "split_text_by_separator text_utils_globals tk text separator min_length = Inr [p]"
    if "?parts = [p]" for p
    using that ne[OF that] by (simp add: split_text_by_separator_def sp loop)
  have none: "split_text_by_separator text_utils_globals tk text separator min_length = Inr []"
    if "?parts = []"
    using that by (simp add: split_text_by_separator_def sp loop)
  show ?thesis
    unfolding Let_def using sp many one none by blast
qed

theorem split_text_by_separator_unbound_name_witness:
  "[CHR 0x0A, CHR 0x0A] \<noteq> []
   \<and> split_text_by_separator text_utils_globals char_tiktoken
        ''a\<newline>\<newline>b\<newline>\<newline>c'' ''\<newline>\<newline>'' 50
       = Inl (NameError ''max_tokens_per_chunk'')
   \<and> split_text_by_separator text_utils_globals strict_tiktoken
        ''<|endoftext|>\<newline>\<newline>b'' ''\<newline>\<newline>'' 50
       = Inl special_token_error
   \<and> split_text_by_separator text_utils_globals char_tiktoken
        '' a \<newline>\<newline>  '' ''\<newline>\<newline>'' 50 = Inr [''a'']
   \<and> split_text_by_separator text_utils_globals char_tiktoken
        '' \<newline>\<newline>  '' ''\<newline>\<newline>'' 50 = Inr []"
proof -
  have s1: "split_on ''\<newline>\<newline>'' [] ''a\<newline>\<newline>b\<newline>\<newline>c'' = [''a'', ''b'', ''c'']"
    by simp
  have s2: "split_on ''\<newline>\<newline>'' [] '' a \<newline>\<newline>  '' = ['' a '', ''  '']"
    by simp
  have s3: "split_on ''\<newline>\<newline>'' [] '' \<newline>\<newline>  '' = ['' '', ''  '']"
    by simp
  have s4: "split_on ''\<newline>\<newline>'' [] ''<|endoftext|>\<newline>\<newline>b'' = [''<|endoftext|>'', ''b'']"
    by simp
  have p: "py_strip ''a'' = ''a''" "py_strip ''b'' = ''b''" "py_strip ''c'' = ''c''"
    "py_strip '' a '' = ''a''" "py_strip ''  '' = []" "py_strip '' '' = []"
    "py_strip ''<|endoftext|>'' = ''<|endoftext|>''"
    by (simp_all add: py_strip_def py_isspace_def)
  have c1: "count_tokens char_tiktoken t ''text-embedding-3-small'' = Inr (length t)" for t
    by (simp add: count_tokens_def get_tokenizer_def char_tiktoken_def char_tokenizer_def)
  have c2: "count_tokens strict_tiktoken ''<|endoftext|>\<newline>\<newline>b'' ''text-embedding-3-small''
              = Inl special_token_error"
    by (simp add: count_tokens_def get_tokenizer_def strict_tiktoken_def strict_tokenizer_def)
  show ?thesis
    using split_text_by_separator_unbound_name[of "''\<newline>\<newline>''" "''a\<newline>\<newline>b\<newline>\<newline>c''" char_tiktoken 50]
      split_text_by_separator_unbound_name[of "''\<newline>\<newline>''" "''<|endoftext|>\<newline>\<newline>b''" strict_tiktoken 50]
      split_text_by_separator_unbound_name[of "''\<newline>\<newline>''" "'' a \<newline>\<newline>  ''" char_tiktoken 50]
      split_text_by_separator_unbound_name[of "''\<newline>\<newline>''" "'' \<newline>\<newline>  ''" char_tiktoken 50]
    unfolding Let_def s1 s2 s3 s4
    by (simp add: p c1 c2)
qed

text \<open>
  C10 as stated fails where the tokenizer raises: the text \<open><|endoftext|>\<close>, two newlines,
  \<open>b\<close> has two non-empty stripped parts, and with a tokenizer that refuses the special
  token the call fails with that tokenizer's \<open>ValueError\<close>, not with \<open>NameError\<close>.
\<close>

theorem split_text_by_separator_unbound_name_counterexample:
  "filter (\<lambda>p. p \<noteq> []) (map py_strip (split_on ''\<newline>\<newline>'' [] ''<|endoftext|>\<newline>\<newline>b''))
     = [''<|endoftext|>'', ''b'']
   \<and> split_text_by_separator text_utils_globals strict_tiktoken
        ''<|endoftext|>\<newline>\<newline>b'' ''\<newline>\<newline>'' 50
       = Inl special_token_error
   \<and> special_token_error \<noteq> NameError ''max_tokens_per_chunk''"
  by (simp add: split_text_by_separator_def py_split_def py_strip_def py_isspace_def
        count_tokens_def get_tokenizer_def strict_tiktoken_def strict_tokenizer_def
        special_token_error_def Let_def)

text \<open>
  C7. On the text made of the parts \<open>a\<close>, \<open>b\<close>, \<open>c\<close> joined by two newlines, with
  two newlines as the separator, \<open>split_text_by_separator\<close> returns no chunks at all: at
  the second part it fails, with \<open>NameError\<close> unless the tokenizer itself raises on the
  first two parts joined; with the tokenizer that never raises it is \<open>NameError\<close>.
\<close>

theorem split_text_by_separator_fails_on_example:
  "split_text_by_separator text_utils_globals tk
     ''a\<newline>\<newline>b\<newline>\<newline>c'' ''\<newline>\<newline>'' min_length
   = (case count_tokens tk ''a\<newline>\<newline>b'' ''text-embedding-3-small'' of
        Inl e \<Rightarrow> Inl e
      | Inr n \<Rightarrow> Inl (NameError ''max_tokens_per_chunk''))
   \<and> split_text_by_separator text_utils_globals char_tiktoken
        ''a\<newline>\<newline>b\<newline>\<newline>c'' ''\<newline>\<newline>'' min_length
      = Inl (NameError ''max_tokens_per_chunk'')"
proof -
  have general: "split_text_by_separator text_utils_globals tk'
        ''a\<newline>\<newline>b\<newline>\<newline>c'' ''\<newline>\<newline>'' min_length
      = (case count_tokens tk' ''a\<newline>\<newline>b'' ''text-embedding-3-small'' of
           Inl e \<Rightarrow> Inl e
         | Inr n \<Rightarrow> Inl (NameError ''max_tokens_per_chunk''))" for tk'
    by (cases "count_tokens tk' ''a\<newline>\<newline>b'' ''text-embedding-3-small''")
       (simp_all add: split_text_by_separator_def py_split_def py_strip_def py_isspace_def
          load_global_def text_utils_globals_def)
  have c: "count_tokens char_tiktoken ''a\<newline>\<newline>b'' ''text-embedding-3-small'' = Inr 4"
    by (simp add: count_tokens_def get_tokenizer_def char_tiktoken_def char_tokenizer_def)
  show ?thesis
    using general[of tk] general[of char_tiktoken] by (simp add: c)
qed

text \<open>
  Were the name bound in the module, the same input would give chunks: with one token per
  character, one chunk under a budget of 500 tokens, and the two chunks \<open>a\<close>, \<open>b\<close> joined
  and \<open>c\<close> under a budget of 4.
\<close>

lemma split_text_by_separator_if_bound:
  "split_text_by_separator (text_utils_globals(''max_tokens_per_chunk'' \<mapsto> 500)) char_tiktoken
     ''a\<newline>\<newline>b\<newline>\<newline>c'' ''\<newline>\<newline>'' 50
   = Inr [''a\<newline>\<newline>b\<newline>\<newline>c'']"
  "split_text_by_separator (text_utils_globals(''max_tokens_per_chunk'' \<mapsto> 4)) char_tiktoken
     ''a\<newline>\<newline>b\<newline>\<newline>c'' ''\<newline>\<newline>'' 50
   = Inr [''a\<newline>\<newline>b'', ''c'']"
  by (simp_all add: split_text_by_separator_def py_split_def py_strip_def py_isspace_def
        load_global_def text_utils_globals_def Let_def count_tokens_def get_tokenizer_def
        char_tiktoken_def char_tokenizer_def)

section \<open>Claims about the services and the chat handlers\<close>

lemma get_similar_documents_calls:
  "ChatCompletionsCreate \<notin> set (snd (get_similar_documents cfg svc v k ns))"
  by (auto simp add: get_similar_documents_def get_index_def split: sum.splits)

lemma get_embeddings_single:
  "get_embeddings svc [q] model = (embeddings_create svc [q] model, [EmbeddingsCreate])"
  by (simp add: get_embeddings_def)

text \<open>
  C9. \<open>get_embeddings\<close> on the empty list returns the empty list and makes no call to
  the embedding service.
\<close>
theorem get_embeddings_empty:
  "get_embeddings svc [] model = (Inr [], [])"
  by (simp add: get_embeddings_def)

text \<open>
  C4. When the embedding call gives at least one vector and \<open>get_similar_documents\<close>
  returns no document, both handlers (\<open>routes.py\<close> on a question text, \<open>flask_routes.py\<close>
  on a body that holds the question) return the fixed fallback answer with an empty
  \<open>retrieved_context\<close>, and the chat-completion service is not among the calls made.
\<close>
theorem chat_no_documents_fallback:
  assumes "embeddings_create svc [q] (EMBEDDING_MODEL cfg) = Inr (query_embedding # others)"
    and "fst (get_similar_documents cfg svc query_embedding 5 []) = []"
  shows
    "(q = JStr text \<longrightarrow>
        fst (routes_chat cfg svc \<lparr>question = text\<rparr>)
          = Inr \<lparr>answer = fallback_answer, retrieved_context = []\<rparr>
      \<and> ChatCompletionsCreate \<notin> set (snd (routes_chat cfg svc \<lparr>question = text\<rparr>)))
   \<and> (\<not> py_not data \<and> py_in ''question'' data = Inr True
        \<and> py_getitem data ''question'' = Inr q \<longrightarrow>
        fst (flask_chat cfg svc (Inr data))
          = (JDict [(''answer'', JStr fallback_answer), (''retrieved_context'', JList [])], 200)
      \<and> ChatCompletionsCreate \<notin> set (snd (flask_chat cfg svc (Inr data))))"
proof -
  obtain c2 where sim: "get_similar_documents cfg svc query_embedding 5 [] = ([], c2)"
    using assms(2) by (cases "get_similar_documents cfg svc query_embedding 5 []") simp
  have c2: "ChatCompletionsCreate \<notin> set c2"
    using get_similar_documents_calls[of cfg svc query_embedding 5 "[]"] sim by simp
  have r: "routes_chat cfg svc \<lparr>question = text\<rparr>
             = (Inr \<lparr>answer = fallback_answer, retrieved_context = []\<rparr>, [EmbeddingsCreate] @ c2)"
    if "q = JStr text"
    using that assms(1) sim
    by (simp add: routes_chat_def routes_chat_try_def get_embeddings_single)
  have f: "flask_chat cfg svc (Inr data)
             = ((JDict [(''answer'', JStr fallback_answer), (''retrieved_context'', JList [])], 200),
                [EmbeddingsCreate] @ c2)"
    if "\<not> py_not data" "py_in ''question'' data = Inr True" "py_getitem data ''question'' = Inr q"
    using that assms(1) sim
    by (simp add: flask_chat_def flask_chat_try_def get_embeddings_single)
  show ?thesis using r f c2 by simp
qed

theorem chat_no_documents_fallback_witness:
  "fst (routes_chat default_config services_empty_store \<lparr>question = ''hi''\<rparr>)
     = Inr \<lparr>answer = fallback_answer, retrieved_context = []\<rparr>
   \<and> snd (routes_chat default_config services_empty_store \<lparr>question = ''hi''\<rparr>)
     = [EmbeddingsCreate, PineconeIndex, IndexQuery]
   \<and> ChatCompletionsCreate
       \<notin> set (snd (routes_chat default_config services_empty_store \<lparr>question = ''hi''\<rparr>))
   \<and> flask_chat default_config services_empty_store (Inr (JDict [(''question'', JStr ''hi'')]))
     = ((JDict [(''answer'', JStr fallback_answer), (''retrieved_context'', JList [])], 200),
        [EmbeddingsCreate, PineconeIndex, IndexQuery])"
proof -
  have a1: "embeddings_create services_empty_store [JStr ''hi''] (EMBEDDING_MODEL default_config)
              = Inr [0]"
    by (simp add: services_empty_store_def)
  have a2: "fst (get_similar_documents default_config services_empty_store 0 5 []) = []"
    by (simp add: get_similar_documents_def get_index_def services_empty_store_def)
  have v1: "snd (routes_chat default_config services_empty_store \<lparr>question = ''hi''\<rparr>)
     = [EmbeddingsCreate, PineconeIndex, IndexQuery]"
    by (simp add: routes_chat_def routes_chat_try_def get_embeddings_def
          get_similar_documents_def get_index_def services_empty_store_def)
  have v2: "snd (flask_chat default_config services_empty_store (Inr (JDict [(''question'', JStr ''hi'')])))
     = [EmbeddingsCreate, PineconeIndex, IndexQuery]"
    by (simp add: flask_chat_def flask_chat_try_def get_embeddings_def
          get_similar_documents_def get_index_def services_empty_store_def)
  show ?thesis
    using chat_no_documents_fallback[OF a1 a2, of "''hi''" "JDict [(''question'', JStr ''hi'')]"] v1 v2
    by (simp add: prod_eq_iff)
qed


lemma get_similar_documents_store_failure:
  assumes "(\<exists>err. pc_Index svc (PINECONE_INDEX_NAME cfg) = Inl err)
         \<or> (\<exists>index err. pc_Index svc (PINECONE_INDEX_NAME cfg) = Inr index
                \<and> query index v k True ns = Inl err)"
  shows "fst (get_similar_documents cfg svc v k ns) = []"
  using assms by (auto simp add: get_similar_documents_def get_index_def)

text \<open>
  C5, as amended. For a request with a question text: when the embedding call succeeds
  and the vector store cannot be reached (\<open>pc.Index\<close> raises) or its \<open>query\<close> raises,
  \<open>get_similar_documents\<close> returns the empty list and both handlers answer with the
  fallback text and an empty context, in a successful response (status 200 in Flask). When
  the embedding call raises, both handlers answer with status 500 and the error message.
\<close>
theorem chat_store_failure_gives_fallback:
  assumes "\<not> py_not data" and "py_in ''question'' data = Inr True"
    and "py_getitem data ''question'' = Inr (JStr text)"
  shows
    "(\<forall>query_embedding others.
        embeddings_create svc [JStr text] (EMBEDDING_MODEL cfg) = Inr (query_embedding # others)
        \<and> ((\<exists>err. pc_Index svc (PINECONE_INDEX_NAME cfg) = Inl err)
           \<or> (\<exists>index err. pc_Index svc (PINECONE_INDEX_NAME cfg) = Inr index
                  \<and> query index query_embedding 5 True [] = Inl err))
        \<longrightarrow> fst (get_similar_documents cfg svc query_embedding 5 []) = []
          \<and> fst (routes_chat cfg svc \<lparr>question = text\<rparr>)
              = Inr \<lparr>answer = fallback_answer, retrieved_context = []\<rparr>
          \<and> fst (flask_chat cfg svc (Inr data))
              = (JDict [(''answer'', JStr fallback_answer), (''retrieved_context'', JList [])],
                 200))
   \<and> (\<forall>err. embeddings_create svc [JStr text] (EMBEDDING_MODEL cfg) = Inl err
        \<longrightarrow> fst (routes_chat cfg svc \<lparr>question = text\<rparr>)
              = Inl (HTTPException 500 (''An error occurred: '' @ str_of_error err))
          \<and> fst (flask_chat cfg svc (Inr data))
              = (JDict [(''error'', JStr (''An error occurred: '' @ str_of_error err))], 500))"
proof (intro conjI allI impI)
  fix query_embedding others
  assume a: "embeddings_create svc [JStr text] (EMBEDDING_MODEL cfg) = Inr (query_embedding # others)
        \<and> ((\<exists>err. pc_Index svc (PINECONE_INDEX_NAME cfg) = Inl err)
           \<or> (\<exists>index err. pc_Index svc (PINECONE_INDEX_NAME cfg) = Inr index
                  \<and> query index query_embedding 5 True [] = Inl err))"
  then have emb: "embeddings_create svc [JStr text] (EMBEDDING_MODEL cfg)
                    = Inr (query_embedding # others)"
    by simp
  from a show none: "fst (get_similar_documents cfg svc query_embedding 5 []) = []"
    by (intro get_similar_documents_store_failure) simp
  then obtain c2 where sim: "get_similar_documents cfg svc query_embedding 5 [] = ([], c2)"
    by (cases "get_similar_documents cfg svc query_embedding 5 []") simp
  show "fst (routes_chat cfg svc \<lparr>question = text\<rparr>)
          = Inr \<lparr>answer = fallback_answer, retrieved_context = []\<rparr>"
    using emb sim by (simp add: routes_chat_def routes_chat_try_def get_embeddings_single)
  show "fst (flask_chat cfg svc (Inr data))
          = (JDict [(''answer'', JStr fallback_answer), (''retrieved_context'', JList [])], 200)"
    using assms emb sim by (simp add: flask_chat_def flask_chat_try_def get_embeddings_single)
next
  fix err
  assume "embeddings_create svc [JStr text] (EMBEDDING_MODEL cfg) = Inl err"
  then show "fst (routes_chat cfg svc \<lparr>question = text\<rparr>)
              = Inl (HTTPException 500 (''An error occurred: '' @ str_of_error err))"
    by (simp add: routes_chat_def routes_chat_try_def get_embeddings_single)
next
  fix err
  assume "embeddings_create svc [JStr text] (EMBEDDING_MODEL cfg) = Inl err"
  then show "fst (flask_chat cfg svc (Inr data))
              = (JDict [(''error'', JStr (''An error occurred: '' @ str_of_error err))], 500)"
    using assms by (simp add: flask_chat_def flask_chat_try_def get_embeddings_single)
qed

theorem chat_store_failure_gives_fallback_witness:
  "fst (routes_chat default_config services_store_unreachable \<lparr>question = ''hi''\<rparr>)
     = Inr \<lparr>answer = fallback_answer, retrieved_context = []\<rparr>
   \<and> fst (flask_chat default_config services_query_error (Inr (JDict [(''question'', JStr ''hi'')])))
     = (JDict [(''answer'', JStr fallback_answer), (''retrieved_context'', JList [])], 200)
   \<and> fst (routes_chat default_config services_embedding_error \<lparr>question = ''hi''\<rparr>)
     = Inl (HTTPException 500 ''An error occurred: embedding failed'')
   \<and> fst (flask_chat default_config services_embedding_error
            (Inr (JDict [(''question'', JStr ''hi'')])))
     = (JDict [(''error'', JStr ''An error occurred: embedding failed'')], 500)"
proof -
  let ?data = "JDict [(''question'', JStr ''hi'')]"
  have d: "\<not> py_not ?data" "py_in ''question'' ?data = Inr True"
    "py_getitem ?data ''question'' = Inr (JStr ''hi'')"
    by simp_all
  have e1: "embeddings_create services_store_unreachable [JStr ''hi'']
              (EMBEDDING_MODEL default_config) = Inr [0]"
    "pc_Index services_store_unreachable (PINECONE_INDEX_NAME default_config)
       = Inl (ServiceError ''connection refused'')"
    by (simp_all add: services_store_unreachable_def)
  have e2: "embeddings_create services_query_error [JStr ''hi'']
              (EMBEDDING_MODEL default_config) = Inr [0]"
    "\<exists>index. pc_Index services_query_error (PINECONE_INDEX_NAME default_config) = Inr index
       \<and> query index 0 5 True [] = Inl (ServiceError ''query failed'')"
    by (simp_all add: services_query_error_def)
  have e3: "embeddings_create services_embedding_error [JStr ''hi'']
              (EMBEDDING_MODEL default_config) = Inl (ServiceError ''embedding failed'')"
    by (simp add: services_embedding_error_def)
  from chat_store_failure_gives_fallback[OF d, of services_store_unreachable default_config] e1
  have r1: "fst (routes_chat default_config services_store_unreachable \<lparr>question = ''hi''\<rparr>)
     = Inr \<lparr>answer = fallback_answer, retrieved_context = []\<rparr>"
    by blast
  from chat_store_failure_gives_fallback[OF d, of services_query_error default_config] e2
  have r2: "fst (flask_chat default_config services_query_error (Inr ?data))
     = (JDict [(''answer'', JStr fallback_answer), (''retrieved_context'', JList [])], 200)"
    by blast
  from chat_store_failure_gives_fallback[OF d, of services_embedding_error default_config] e3
  have r3: "fst (routes_chat default_config services_embedding_error \<lparr>question = ''hi''\<rparr>)
     = Inl (HTTPException 500 ''An error occurred: embedding failed'')
   \<and> fst (flask_chat default_config services_embedding_error (Inr ?data))
     = (JDict [(''error'', JStr ''An error occurred: embedding failed'')], 500)"
    by simp
  show ?thesis using r1 r2 r3 by simp
qed

text \<open>
  C5 as stated fails: with a vector store that cannot be reached, or whose \<open>query\<close>
  raises, both handlers return the fallback answer as a success, not a 500.
\<close>

theorem chat_store_failure_counterexample:
  "pc_Index services_store_unreachable (PINECONE_INDEX_NAME default_config)
     = Inl (ServiceError ''connection refused'')
   \<and> routes_chat default_config services_store_unreachable \<lparr>question = ''hi''\<rparr>
     = (Inr \<lparr>answer = fallback_answer, retrieved_context = []\<rparr>, [EmbeddingsCreate, PineconeIndex])
   \<and> flask_chat default_config services_store_unreachable (Inr (JDict [(''question'', JStr ''hi'')]))
     = ((JDict [(''answer'', JStr fallback_answer), (''retrieved_context'', JList [])], 200),
        [EmbeddingsCreate, PineconeIndex])
   \<and> routes_chat default_config services_query_error \<lparr>question = ''hi''\<rparr>
     = (Inr \<lparr>answer = fallback_answer, retrieved_context = []\<rparr>,
        [EmbeddingsCreate, PineconeIndex, IndexQuery])
   \<and> flask_chat default_config services_query_error (Inr (JDict [(''question'', JStr ''hi'')]))
     = ((JDict [(''answer'', JStr fallback_answer), (''retrieved_context'', JList [])], 200),
        [EmbeddingsCreate, PineconeIndex, IndexQuery])"
  by (simp add: routes_chat_def routes_chat_try_def flask_chat_def flask_chat_try_def
        get_embeddings_def get_similar_documents_def get_index_def
        services_store_unreachable_def services_query_error_def)

text \<open>
  C6, as amended. \<open>POST /api/chat\<close> in \<open>flask_routes.py\<close>, on a body that is a JSON
  object: when the object has no \<open>question\<close> key the handler answers 400 with an
  \<open>error\<close> field and makes no service call. When its \<open>question\<close> is the empty string the
  request is not rejected: the first call made is the embedding call and the status is 200
  or 500.
\<close>

theorem flask_chat_missing_question:
  "(''question'' \<notin> set (map fst kvs) \<longrightarrow>
      flask_chat cfg svc (Inr (JDict kvs))
        = ((JDict [(''error'', JStr ''Missing question in request'')], 400), []))
   \<and> (map_of (rev kvs) ''question'' = Some (JStr []) \<longrightarrow>
      (\<exists>body status calls.
          flask_chat cfg svc (Inr (JDict kvs)) = ((body, status), EmbeddingsCreate # calls)
        \<and> (status = 200 \<or> status = 500)))"
proof (intro conjI impI)
  assume "''question'' \<notin> set (map fst kvs)"
  then show "flask_chat cfg svc (Inr (JDict kvs))
        = ((JDict [(''error'', JStr ''Missing question in request'')], 400), [])"
    by (auto simp add: flask_chat_def flask_chat_try_def)
next
  assume q: "map_of (rev kvs) ''question'' = Some (JStr [])"
  then have "(''question'', JStr []) \<in> set (rev kvs)"
    by (rule map_of_SomeD)
  then have k: "''question'' \<in> fst ` set kvs" and ne: "kvs \<noteq> []"
    by force+
  show "\<exists>body status calls.
          flask_chat cfg svc (Inr (JDict kvs)) = ((body, status), EmbeddingsCreate # calls)
        \<and> (status = 200 \<or> status = 500)"
    using q k ne
    by (auto simp add: flask_chat_def flask_chat_try_def get_embeddings_single
          get_chat_completion_def Let_def
          split: sum.splits list.splits prod.splits)
qed

theorem flask_chat_missing_question_witness:
  "flask_chat default_config services_empty_store (Inr (JDict []))
     = ((JDict [(''error'', JStr ''Missing question in request'')], 400), [])
   \<and> flask_chat default_config services_empty_store (Inr (JDict [(''text'', JStr ''hi'')]))
     = ((JDict [(''error'', JStr ''Missing question in request'')], 400), [])
   \<and> (\<exists>body status calls.
         flask_chat default_config services_empty_store (Inr (JDict [(''question'', JStr [])]))
           = ((body, status), EmbeddingsCreate # calls)
       \<and> (status = 200 \<or> status = 500))"
  using flask_chat_missing_question[of "[]" default_config services_empty_store]
    flask_chat_missing_question[of "[(''text'', JStr ''hi'')]" default_config services_empty_store]
    flask_chat_missing_question[of "[(''question'', JStr [])]" default_config services_empty_store]
  by simp

text \<open>
  C6 as stated fails on the body \<open>{"question": ""}\<close>: over an empty vector store the
  handler calls the embedding service and the vector store and answers 200 with the
  fallback text. A body that is not a JSON object, such as the number 5, has no
  \<open>question\<close> key either and gets 500, not 400.
\<close>

theorem flask_chat_empty_question_counterexample:
  "flask_chat default_config services_empty_store (Inr (JDict [(''question'', JStr [])]))
     = ((JDict [(''answer'', JStr fallback_answer), (''retrieved_context'', JList [])], 200),
        [EmbeddingsCreate, PineconeIndex, IndexQuery])
   \<and> flask_chat default_config services_empty_store (Inr (JNum 5))
     = ((JDict [(''error'',
                 JStr ''An error occurred: argument of type 'int' is not iterable'')], 500), [])"
  by (simp add: flask_chat_def flask_chat_try_def get_embeddings_def get_similar_documents_def
        get_index_def services_empty_store_def)

end
